theory Spec2Isabelle
  imports Main
begin

section \<open>GPflow's ScipyOptimizer (gpflow/training/scipy.py)\<close>

text \<open>
  The class packs a list of parameter tensors into one flat vector, hands the vector to
  \<^verbatim>\<open>scipy.optimize.minimize\<close>, and on each evaluation requested by the solver writes the
  candidate vector back into the tensors, computes loss and gradients, and returns the loss
  with the packed gradients.

  The TensorFlow and NumPy primitives the class calls (\<^verbatim>\<open>tf.reshape\<close>, \<^verbatim>\<open>tf.concat\<close>,
  \<^verbatim>\<open>np.prod\<close>, slicing, \<^verbatim>\<open>assign\<close>) are modelled on tensors of one element type, with
  the errors they raise on the inputs this class can give them; element arithmetic plays no
  role, so the element type is a parameter.
\<close>

subsection \<open>Tensors and errors\<close>

text \<open>
  A tensor is its shape and its elements in row-major order. A well-formed tensor has as
  many elements as its shape says: the product of the dimensions, 1 for a scalar (the
  empty shape).
\<close>

record 'a tensor =
  shape :: "nat list"
  vals :: "'a list"

datatype error =
    ValueError string
  | TypeError string
  | InvalidArgumentError string
  | Raised string

abbreviation slice_index_error :: error where
  "slice_index_error \<equiv> TypeError ''slice indices must be integers''"

abbreviation concat_nothing_error :: error where
  "concat_nothing_error \<equiv> InvalidArgumentError ''concat needs at least one tensor''"

definition num_elements :: "nat list \<Rightarrow> nat" where
  "num_elements shp = prod_list shp"

definition wf_tensor :: "'a tensor \<Rightarrow> bool" where
  "wf_tensor t = (length (vals t) = num_elements (shape t))"

definition total_size :: "'a tensor list \<Rightarrow> nat" where
  "total_size tensors = sum_list (map (\<lambda>t. num_elements (shape t)) tensors)"

text \<open>A tensor of rank at least one: its shape has a dimension.\<close>

definition ranked :: "'a tensor \<Rightarrow> bool" where
  "ranked t = (shape t \<noteq> [])"

subsection \<open>NumPy numbers, np.prod and slicing\<close>

text \<open>
  \<^verbatim>\<open>np.prod(shape)\<close> turns the shape into an array first. The dimensions of a non-empty
  shape are integers and so is their product. An empty shape gives an empty array of
  floats, and the product of no float is the float \<open>1.0\<close>. A float is kept here as the
  whole number it holds; no other float arises. The sum of an integer and a float is a
  float.
\<close>

datatype np_scalar = NpInt nat | NpFloat nat

definition np_prod :: "nat list \<Rightarrow> np_scalar" where
  "np_prod shp = (if shp = [] then NpFloat 1 else NpInt (prod_list shp))"

fun np_add :: "np_scalar \<Rightarrow> np_scalar \<Rightarrow> np_scalar" where
  "np_add (NpInt a) (NpInt b) = NpInt (a + b)"
| "np_add (NpInt a) (NpFloat b) = NpFloat (a + b)"
| "np_add (NpFloat a) (NpInt b) = NpFloat (a + b)"
| "np_add (NpFloat a) (NpFloat b) = NpFloat (a + b)"

text \<open>
  The slice \<^verbatim>\<open>from_vector[lo: hi]\<close>. With integer bounds it never raises: NumPy cuts it at
  the end of the vector. A float as a bound raises \<^verbatim>\<open>TypeError\<close>.
\<close>

fun np_slice :: "'a list \<Rightarrow> np_scalar \<Rightarrow> np_scalar \<Rightarrow> error + 'a list" where
  "np_slice v (NpInt lo) (NpInt hi) = Inr (drop lo (take hi v))"
| "np_slice v (NpInt lo) (NpFloat hi) = Inl slice_index_error"
| "np_slice v (NpFloat lo) hi = Inl slice_index_error"

subsection \<open>TensorFlow operations\<close>

text \<open>A NumPy vector read as a one-dimensional tensor.\<close>

definition as_tensor :: "'a list \<Rightarrow> 'a tensor" where
  "as_tensor xs = \<lparr>shape = [length xs], vals = xs\<rparr>"

text \<open>\<^verbatim>\<open>tf.reshape(tensor, (-1,))\<close>: the same elements, one dimension.\<close>

definition reshape_flat :: "'a tensor \<Rightarrow> 'a tensor" where
  "reshape_flat t = as_tensor (vals t)"

text \<open>
  \<^verbatim>\<open>tf.reshape(tensor, shape)\<close> with an explicit shape: raises unless the number of elements
  is the product of the requested shape.
\<close>

definition tf_reshape :: "'a tensor \<Rightarrow> nat list \<Rightarrow> error + 'a tensor" where
  "tf_reshape t shp =
     (if length (vals t) = num_elements shp then Inr \<lparr>shape = shp, vals = vals t\<rparr>
      else Inl (InvalidArgumentError ''Input to reshape does not match the requested shape''))"

text \<open>
  \<^verbatim>\<open>tf.concat(flats, axis=0)\<close> on one-dimensional tensors: it raises when there is no tensor
  to concatenate. \<^verbatim>\<open>.numpy()\<close> reads the result.
\<close>

definition tf_concat :: "'a tensor list \<Rightarrow> error + 'a tensor" where
  "tf_concat flats =
     (if flats = [] then Inl concat_nothing_error
      else Inr (as_tensor (concat (map vals flats))))"

definition numpy :: "'a tensor \<Rightarrow> 'a list" where
  "numpy t = vals t"

text \<open>
  \<^verbatim>\<open>variable.assign(value)\<close>: the variable keeps its shape and takes the elements of the
  value; a value of another shape is refused.
\<close>

definition assign :: "'a tensor \<Rightarrow> 'a tensor \<Rightarrow> error + 'a tensor" where
  "assign var v =
     (if shape v = shape var then Inr (var\<lparr>vals := vals v\<rparr>)
      else Inl (ValueError ''Shapes are incompatible''))"

subsection \<open>pack_tensors and unpack_tensors\<close>

definition pack_tensors :: "'a tensor list \<Rightarrow> error + 'a list" where
  "pack_tensors tensors =
     (let flats = map reshape_flat tensors
      in case tf_concat flats of
           Inl e \<Rightarrow> Inl e
         | Inr tensors_vector \<Rightarrow> Inr (numpy tensors_vector))"

text \<open>
  The loop of \<^verbatim>\<open>unpack_tensors\<close>, with the running offset \<open>s\<close>, which starts as the
  integer 0. The tensors are mutated in place, so a failure in the middle leaves the
  earlier tensors assigned and the others untouched: the function returns the error, if
  any, and the tensors as they are when it stops.
\<close>

fun unpack_from ::
  "np_scalar \<Rightarrow> 'a tensor list \<Rightarrow> 'a list \<Rightarrow> error option \<times> 'a tensor list" where
  "unpack_from s [] from_vector = (None, [])"
| "unpack_from s (tensor # rest) from_vector =
     (let shp = shape tensor;
          tensor_size = np_prod shp
      in case np_slice from_vector s (np_add s tensor_size) of
           Inl e \<Rightarrow> (Some e, tensor # rest)
         | Inr tensor_vector \<Rightarrow>
             (case tf_reshape (as_tensor tensor_vector) shp of
                Inl e \<Rightarrow> (Some e, tensor # rest)
              | Inr tensor_vector' \<Rightarrow>
                  (case assign tensor tensor_vector' of
                     Inl e \<Rightarrow> (Some e, tensor # rest)
                   | Inr tensor' \<Rightarrow>
                       (let (r, rest') = unpack_from (np_add s tensor_size) rest from_vector
                        in (r, tensor' # rest')))))"

definition unpack_tensors :: "'a tensor list \<Rightarrow> 'a list \<Rightarrow> error option \<times> 'a tensor list" where
  "unpack_tensors to_tensors from_vector = unpack_from (NpInt 0) to_tensors from_vector"

subsection \<open>Python objects, the mutable world and its trace\<close>

text \<open>
  An argument of \<^verbatim>\<open>minimize\<close> is any Python object: \<^verbatim>\<open>None\<close>, a function, or something that
  cannot be called. \<^verbatim>\<open>callable\<close> is Python's built-in test.
\<close>

datatype 'f pyobj = PyNone | PyData string | PyFun 'f

fun callable :: "'f pyobj \<Rightarrow> bool" where
  "callable (PyFun f) = True"
| "callable PyNone = False"
| "callable (PyData d) = False"

type_synonym kwargs = "(string \<times> string) list"

text \<open>
  The trace is ghost state: it records, in order, every call that crosses the border of the
  class (into the solver, from the solver into the evaluation function, into the user's
  closure, into the user's callback). No function reads it.
\<close>

datatype 'a event =
    Solver_called "'a list" bool kwargs
  | Eval_called "'a list"
  | Closure_called "'a tensor list"
  | Callback_called 'a "'a tensor list" "'a tensor list"

text \<open>
  The world holds what the code mutates: the current values of the parameter tensors (the
  list \<^verbatim>\<open>variables\<close>, one entry per variable object, in order) and whatever state the
  user's functions keep for themselves (a log, a counter).
\<close>

record ('a, 'u) world =
  variables :: "'a tensor list"
  user :: 'u
  trace :: "'a event list"

text \<open>
  The user's functions read the parameter values they are given and their own state; they
  may raise. The closure returns the loss and one gradient per parameter; the callback
  returns nothing. They do not assign the variables themselves: in this class only
  \<^verbatim>\<open>unpack_tensors\<close> does.
\<close>

type_synonym ('a, 'u) loss_closure =
  "'a tensor list \<Rightarrow> 'u \<Rightarrow> (error + 'a \<times> 'a tensor list) \<times> 'u"

type_synonym ('a, 'u) step_callback =
  "'a \<Rightarrow> 'a tensor list \<Rightarrow> 'a tensor list \<Rightarrow> 'u \<Rightarrow> (error + unit) \<times> 'u"

type_synonym ('a, 'u) eval_function =
  "'a list \<Rightarrow> ('a, 'u) world \<Rightarrow> (error + 'a \<times> 'a list) \<times> ('a, 'u) world"

text \<open>
  Modelled from the spec: \<^verbatim>\<open>loss_gradients\<close> is imported from \<^verbatim>\<open>gpflow/training/optimize.py\<close>,
  which is not among the sources. The spec says that it invokes the loss/gradient
  computation against the current (just updated) parameters and yields a scalar loss and a
  matching sequence of gradient tensors. Calling an object that is not callable raises
  \<^verbatim>\<open>TypeError\<close>, as any call in Python does.
\<close>

definition loss_gradients ::
  "('a, 'u) loss_closure pyobj \<Rightarrow> ('a, 'u) world \<Rightarrow>
     (error + 'a \<times> 'a tensor list) \<times> ('a, 'u) world" where
  "loss_gradients closure w =
     (case closure of
        PyFun f \<Rightarrow>
          (let (r, u') = f (variables w) (user w)
           in (r, w\<lparr>user := u', trace := trace w @ [Closure_called (variables w)]\<rparr>))
      | PyNone \<Rightarrow> (Inl (TypeError ''object is not callable''), w)
      | PyData d \<Rightarrow> (Inl (TypeError ''object is not callable''), w))"

text \<open>The call \<^verbatim>\<open>step_callback(loss, variables, grads)\<close>.\<close>

definition call_step_callback ::
  "('a, 'u) step_callback pyobj \<Rightarrow> 'a \<Rightarrow> 'a tensor list \<Rightarrow> 'a tensor list \<Rightarrow>
     ('a, 'u) world \<Rightarrow> (error + unit) \<times> ('a, 'u) world" where
  "call_step_callback step_callback loss vars grads w =
     (case step_callback of
        PyFun f \<Rightarrow>
          (let (r, u') = f loss vars grads (user w)
           in (r, w\<lparr>user := u', trace := trace w @ [Callback_called loss vars grads]\<rparr>))
      | PyNone \<Rightarrow> (Inl (TypeError ''object is not callable''), w)
      | PyData d \<Rightarrow> (Inl (TypeError ''object is not callable''), w))"

subsection \<open>eval_func\<close>

text \<open>
  \<^verbatim>\<open>eval_func(closure, variables, step_callback)\<close> returns \<^verbatim>\<open>_eval\<close>; the model is \<^verbatim>\<open>_eval\<close>
  with its three captured names as leading arguments (the variables are in the world).
  An exception ends the call where it is raised and leaves the world as it is then.
\<close>

definition eval_func ::
  "('a, 'u) loss_closure pyobj \<Rightarrow> ('a, 'u) step_callback pyobj \<Rightarrow> ('a, 'u) eval_function" where
  "eval_func closure step_callback x w =
     (case unpack_tensors (variables w) x of (failure, vars) \<Rightarrow>
        (case failure of
           Some e \<Rightarrow> (Inl e, w\<lparr>variables := vars\<rparr>)
         | None \<Rightarrow>
             (case loss_gradients closure (w\<lparr>variables := vars\<rparr>) of (r1, w1) \<Rightarrow>
                (case r1 of
                   Inl e \<Rightarrow> (Inl e, w1)
                 | Inr (loss, grads) \<Rightarrow>
                     (case (if callable step_callback
                            then call_step_callback step_callback loss (variables w1) grads w1
                            else (Inr (), w1)) of (r2, w2) \<Rightarrow>
                        (case r2 of
                           Inl e \<Rightarrow> (Inl e, w2)
                         | Inr u \<Rightarrow>
                             (case pack_tensors grads of
                                Inl e \<Rightarrow> (Inl e, w2)
                              | Inr packed \<Rightarrow> (Inr (loss, packed), w2))))))))"

subsection \<open>The external solver\<close>

text \<open>
  \<^verbatim>\<open>scipy.optimize.minimize\<close> is not part of the repository. All it can do with the function
  it is given is call it, so a solver is a strategy: it returns a result, raises, or asks for
  an evaluation at a vector and goes on with what the evaluation gave (the loss and the
  gradient, or the exception it raised). A strategy is a well-founded tree, so every run
  ends. The strategy may depend on the initial vector, the \<^verbatim>\<open>jac\<close> flag and the options.
\<close>

datatype ('a, 'r) solver =
    Return 'r
  | Raise error
  | Evaluate "'a list" "error + 'a \<times> 'a list \<Rightarrow> ('a, 'r) solver"

primrec run_solver ::
  "('a, 'r) solver \<Rightarrow> ('a, 'u) eval_function \<Rightarrow> ('a, 'u) world \<Rightarrow>
     (error + 'r) \<times> ('a, 'u) world" where
  "run_solver (Return r) func w = (Inr r, w)"
| "run_solver (Raise e) func w = (Inl e, w)"
| "run_solver (Evaluate x k) func w =
     (case func x (w\<lparr>trace := trace w @ [Eval_called x]\<rparr>) of (y, w') \<Rightarrow>
        run_solver (k y) func w')"

definition scipy_optimize_minimize ::
  "('a list \<Rightarrow> bool \<Rightarrow> kwargs \<Rightarrow> ('a, 'r) solver) \<Rightarrow> ('a, 'u) eval_function \<Rightarrow> 'a list \<Rightarrow>
     bool \<Rightarrow> kwargs \<Rightarrow> ('a, 'u) world \<Rightarrow> (error + 'r) \<times> ('a, 'u) world" where
  "scipy_optimize_minimize solver func x0 jac scipy_kwargs w =
     run_solver (solver x0 jac scipy_kwargs) func
       (w\<lparr>trace := trace w @ [Solver_called x0 jac scipy_kwargs]\<rparr>)"

subsection \<open>minimize\<close>

definition initial_parameters :: "'a tensor list \<Rightarrow> error + 'a list" where
  "initial_parameters vars = pack_tensors vars"

definition minimize ::
  "('a list \<Rightarrow> bool \<Rightarrow> kwargs \<Rightarrow> ('a, 'r) solver) \<Rightarrow> ('a, 'u) loss_closure pyobj \<Rightarrow>
     ('a, 'u) step_callback pyobj \<Rightarrow> kwargs \<Rightarrow> ('a, 'u) world \<Rightarrow>
     (error + 'r) \<times> ('a, 'u) world" where
  "minimize solver closure step_callback scipy_kwargs w =
     (if \<not> callable closure then (Inl (ValueError ''Callable object expected.''), w)
      else
        (case initial_parameters (variables w) of
           Inl e \<Rightarrow> (Inl e, w)
         | Inr initial_params \<Rightarrow>
             (let func = eval_func closure step_callback
              in scipy_optimize_minimize solver func initial_params True scipy_kwargs w)))"

subsection \<open>Reading the trace\<close>

fun eval_points :: "'a event list \<Rightarrow> 'a list list" where
  "eval_points [] = []"
| "eval_points (Eval_called x # tr) = x # eval_points tr"
| "eval_points (e # tr) = eval_points tr"

fun callback_calls :: "'a event list \<Rightarrow> ('a \<times> 'a tensor list \<times> 'a tensor list) list" where
  "callback_calls [] = []"
| "callback_calls (Callback_called l vs gs # tr) = (l, vs, gs) # callback_calls tr"
| "callback_calls (e # tr) = callback_calls tr"

fun closure_calls :: "'a event list \<Rightarrow> 'a tensor list list" where
  "closure_calls [] = []"
| "closure_calls (Closure_called vs # tr) = vs # closure_calls tr"
| "closure_calls (e # tr) = closure_calls tr"

fun solver_calls :: "'a event list \<Rightarrow> ('a list \<times> bool \<times> kwargs) list" where
  "solver_calls [] = []"
| "solver_calls (Solver_called x0 jac kw # tr) = (x0, jac, kw) # solver_calls tr"
| "solver_calls (e # tr) = solver_calls tr"

text \<open>The tensors after unpacking, one after the other, each vector of a list.\<close>

definition unpack_all :: "'a tensor list \<Rightarrow> 'a list list \<Rightarrow> 'a tensor list" where
  "unpack_all vars xs = foldl (\<lambda>vs x. snd (unpack_tensors vs x)) vars xs"

subsection \<open>A quadratic loss and a logging observer, for the examples\<close>

text \<open>
  The loss is the sum of the squares of all parameters, its gradient twice each parameter.
  The user's state is a log of strings: every call of the closure or of the callback leaves
  a line there.
\<close>

definition quadratic :: "(int, string list) loss_closure" where
  "quadratic vars u =
     (Inr (sum_list (map (\<lambda>x. x * x) (concat (map vals vars))),
           map (\<lambda>t. t\<lparr>vals := map (\<lambda>x. 2 * x) (vals t)\<rparr>) vars),
      u @ [''loss''])"

definition failing :: "(int, string list) loss_closure" where
  "failing vars u = (Inl (Raised ''loss is not finite''), u @ [''loss''])"

definition logger :: "(int, string list) step_callback" where
  "logger loss vars grads u = (Inr (), u @ [''step''])"

definition failing_logger :: "(int, string list) step_callback" where
  "failing_logger loss vars grads u = (Inl (Raised ''disk full''), u @ [''step''])"

text \<open>Three worlds: a vector and a one-element vector; one scalar; no parameter at all.\<close>

definition world0 :: "(int, string list) world" where
  "world0 = \<lparr>variables = [\<lparr>shape = [2], vals = [0, 0]\<rparr>, \<lparr>shape = [1], vals = [0]\<rparr>],
             user = [], trace = []\<rparr>"

definition scalar_world :: "(int, string list) world" where
  "scalar_world = \<lparr>variables = [\<lparr>shape = [], vals = [0]\<rparr>], user = [], trace = []\<rparr>"

definition empty_world :: "(int, string list) world" where
  "empty_world = \<lparr>variables = [], user = [], trace = []\<rparr>"

text \<open>
  Two solvers. The first asks for one evaluation at \<open>[1, 2, 3]\<close> and then reports
  \<open>[5, 6, 7]\<close> as its result, or raises what the evaluation raised. The second returns the
  initial vector at once when \<^verbatim>\<open>jac\<close> is set, and raises otherwise.
\<close>

definition one_step_solver :: "int list \<Rightarrow> bool \<Rightarrow> kwargs \<Rightarrow> (int, int list) solver" where
  "one_step_solver x0 jac scipy_kwargs =
     Evaluate [1, 2, 3] (\<lambda>y. case y of Inl e \<Rightarrow> Raise e | Inr lg \<Rightarrow> Return [5, 6, 7])"

definition idle_solver :: "int list \<Rightarrow> bool \<Rightarrow> kwargs \<Rightarrow> (int, int list) solver" where
  "idle_solver x0 jac scipy_kwargs =
     (if jac then Return x0 else Raise (ValueError ''jac expected''))"

section \<open>Properties of packing and unpacking\<close>

lemma pack_tensors_nonempty: "ts \<noteq> [] \<Longrightarrow> pack_tensors ts = Inr (concat (map vals ts))"
  by (simp add: pack_tensors_def tf_concat_def numpy_def reshape_flat_def as_tensor_def
      comp_def)

lemma pack_tensors_empty: "pack_tensors [] = Inl concat_nothing_error"
  by (simp add: pack_tensors_def tf_concat_def)

lemma length_concat_vals:
  "list_all wf_tensor ts \<Longrightarrow> length (concat (map vals ts)) = total_size ts"
  by (induction ts) (simp_all add: total_size_def wf_tensor_def)

lemma slice_length: "length (drop s (take (s + n) v)) = min n (length v - s)"
  by simp

lemma slice_take_drop: "drop s (take (s + n) v) = take n (drop s v)"
  by (simp add: drop_take)

lemma unpack_step_scalar:
  assumes "shape t = []"
  shows "unpack_from (NpInt s) (t # rest) v = (Some slice_index_error, t # rest)"
  using assms by (simp add: np_prod_def)

lemma unpack_step_ok:
  assumes "shape t \<noteq> []" and "s + num_elements (shape t) \<le> length v"
  shows "unpack_from (NpInt s) (t # rest) v =
           (let (r, rest') = unpack_from (NpInt (s + num_elements (shape t))) rest v
            in (r, t\<lparr>vals := take (num_elements (shape t)) (drop s v)\<rparr> # rest'))"
proof -
  let ?n = "num_elements (shape t)"
  from assms(2) have "length (drop s (take (s + ?n) v)) = ?n"
    unfolding slice_length by arith
  then have len: "length (take ?n (drop s v)) = ?n"
    unfolding slice_take_drop .
  from assms(1) have np: "np_prod (shape t) = NpInt ?n"
    by (simp add: np_prod_def num_elements_def)
  from len show ?thesis
    by (simp add: np slice_take_drop tf_reshape_def as_tensor_def assign_def Let_def
        del: length_take)
qed

lemma unpack_step_short:
  assumes "shape t \<noteq> []" and "s \<le> length v" and "length v < s + num_elements (shape t)"
  shows "\<exists>e. unpack_from (NpInt s) (t # rest) v = (Some e, t # rest)"
proof -
  let ?n = "num_elements (shape t)"
  from assms(2,3) have "length (drop s (take (s + ?n) v)) \<noteq> ?n"
    unfolding slice_length by arith
  then have len: "length (take ?n (drop s v)) \<noteq> ?n"
    unfolding slice_take_drop .
  from assms(1) have np: "np_prod (shape t) = NpInt ?n"
    by (simp add: np_prod_def num_elements_def)
  from len show ?thesis
    by (simp add: np slice_take_drop tf_reshape_def as_tensor_def Let_def
        del: length_take)
qed

declare unpack_from.simps(2) [simp del]

lemma unpack_from_fits:
  "list_all ranked ts \<Longrightarrow> s + total_size ts \<le> length v \<Longrightarrow>
   \<exists>ts'. unpack_from (NpInt s) ts v = (None, ts') \<and> map shape ts' = map shape ts \<and>
         list_all wf_tensor ts' \<and>
         concat (map vals ts') = take (total_size ts) (drop s v)"
proof (induction ts arbitrary: s)
  case Nil
  then show ?case by (simp add: total_size_def)
next
  case (Cons t ts)
  let ?n = "num_elements (shape t)"
  from Cons.prems(1) have "ranked t" and rks: "list_all ranked ts"
    by simp_all
  then have rk: "shape t \<noteq> []"
    by (simp add: ranked_def)
  from Cons.prems(2) have fit: "s + ?n \<le> length v"
    and rest: "(s + ?n) + total_size ts \<le> length v"
    by (simp_all add: total_size_def)
  from Cons.IH [OF rks rest] obtain ts' where
    ts': "unpack_from (NpInt (s + ?n)) ts v = (None, ts')" "map shape ts' = map shape ts"
      "list_all wf_tensor ts'"
      "concat (map vals ts') = take (total_size ts) (drop (s + ?n) v)"
    by blast
  have tot: "total_size (t # ts) = ?n + total_size ts"
    by (simp add: total_size_def)
  have "take ?n (drop s v) @ take (total_size ts) (drop (s + ?n) v)
          = take (?n + total_size ts) (drop s v)"
    by (simp add: take_add add.commute [of s])
  moreover from fit have "wf_tensor (t\<lparr>vals := take ?n (drop s v)\<rparr>)"
    by (simp add: wf_tensor_def)
  ultimately show ?case
    using ts' by (simp add: unpack_step_ok [OF rk fit] tot)
qed

lemma unpack_from_pack:
  "list_all wf_tensor ts \<Longrightarrow> list_all ranked ts \<Longrightarrow> map shape us = map shape ts \<Longrightarrow>
   length pre = s \<Longrightarrow>
   unpack_from (NpInt s) us (pre @ concat (map vals ts) @ post) = (None, ts)"
proof (induction ts arbitrary: us s pre)
  case Nil
  then show ?case by simp
next
  case (Cons t ts)
  let ?n = "num_elements (shape t)"
  let ?v = "pre @ vals t @ concat (map vals ts) @ post"
  from Cons.prems(3) obtain u us' where us: "us = u # us'" "shape u = shape t"
    "map shape us' = map shape ts"
    by (cases us) auto
  from Cons.prems(1) have "wf_tensor t" and wfs: "list_all wf_tensor ts"
    by simp_all
  then have wf: "length (vals t) = ?n"
    by (simp add: wf_tensor_def)
  from Cons.prems(2) have "ranked t" and rks: "list_all ranked ts"
    by simp_all
  then have rk: "shape u \<noteq> []"
    by (simp add: ranked_def us(2))
  have "unpack_from (NpInt (length (pre @ vals t))) us'
          ((pre @ vals t) @ concat (map vals ts) @ post) = (None, ts)"
    by (rule Cons.IH [OF wfs rks us(3)]) simp
  then have rest: "unpack_from (NpInt (s + ?n)) us' ?v = (None, ts)"
    using Cons.prems(4) wf by simp
  have slice: "take ?n (drop s ?v) = vals t"
    using Cons.prems(4) wf by simp
  have fit: "s + num_elements (shape u) \<le> length ?v"
    using Cons.prems(4) wf us(2) by simp
  show ?case
    using rest slice us(2)
    by (simp add: us(1) unpack_step_ok [OF rk fit])
qed

lemma unpack_from_shapes:
  "map shape (snd (unpack_from s ts v)) = map shape ts"
proof (induction ts arbitrary: s)
  case Nil
  show ?case by simp
next
  case (Cons t ts)
  show ?case
    using Cons.IH [of "np_add s (np_prod (shape t))"]
    by (auto simp add: unpack_from.simps(2) tf_reshape_def assign_def as_tensor_def Let_def
        split: prod.splits sum.splits)
qed

lemma unpack_from_short_last:
  "s \<le> length v \<Longrightarrow> length v < s + total_size ts \<Longrightarrow>
   \<exists>e us. unpack_from (NpInt s) ts v = (Some e, us) \<and> us \<noteq> [] \<and> last us = last ts"
proof (induction ts arbitrary: s)
  case Nil
  then show ?case by (simp add: total_size_def)
next
  case (Cons t ts)
  let ?n = "num_elements (shape t)"
  show ?case
  proof (cases "shape t = []")
    case True
    then show ?thesis
      by (simp add: unpack_step_scalar)
  next
    case rk: False
    show ?thesis
    proof (cases "s + ?n \<le> length v")
      case True
      with Cons.prems have "s + ?n \<le> length v" "length v < (s + ?n) + total_size ts"
        by (simp_all add: total_size_def)
      from Cons.IH [OF this] obtain e us where
        us: "unpack_from (NpInt (s + ?n)) ts v = (Some e, us)" "us \<noteq> []" "last us = last ts"
        by blast
      from us(1) have "ts \<noteq> []"
        by (cases ts) simp_all
      with us show ?thesis
        by (simp add: unpack_step_ok [OF rk True])
    next
      case False
      with Cons.prems(1) unpack_step_short [OF rk, of s v ts] show ?thesis
        by auto
    qed
  qed
qed

lemma unpack_tensors_exact:
  assumes "list_all ranked ts" and "length x = total_size ts"
  shows "\<exists>vs. unpack_tensors ts x = (None, vs) \<and> map shape vs = map shape ts \<and>
              list_all wf_tensor vs \<and> concat (map vals vs) = x"
proof -
  from assms(2) have "0 + total_size ts \<le> length x" by simp
  from unpack_from_fits [OF assms(1) this] assms(2) show ?thesis
    by (auto simp add: unpack_tensors_def)
qed

lemmas unpack_eval = unpack_tensors_def unpack_from.simps(2) tf_reshape_def assign_def
  as_tensor_def np_prod_def num_elements_def total_size_def wf_tensor_def ranked_def Let_def

text \<open>
  Claim C1 as stated fails at a scalar and at the empty sequence. A scalar packs, but
  unpacking into it raises \<^verbatim>\<open>TypeError\<close> (the slice bound is a float) and leaves it as it
  was, also for a vector of the right length 1. An empty sequence does not pack:
  \<^verbatim>\<open>tf.concat\<close> raises, so nothing can be unpacked, and the empty vector, which unpacks into
  no tensor, cannot be packed again.
\<close>

theorem roundtrip_counterexample:
  "pack_tensors [\<lparr>shape = [], vals = [5 :: int]\<rparr>] = Inr [5] \<and>
   length [5 :: int] = total_size [\<lparr>shape = [], vals = [0 :: int]\<rparr>] \<and>
   unpack_tensors [\<lparr>shape = [], vals = [0]\<rparr>] [5 :: int]
     = (Some slice_index_error, [\<lparr>shape = [], vals = [0]\<rparr>]) \<and>
   pack_tensors ([] :: int tensor list) = Inl concat_nothing_error \<and>
   unpack_tensors ([] :: int tensor list) [] = (None, [])"
  by (simp add: pack_tensors_nonempty pack_tensors_empty unpack_eval)

text \<open>
  Claim C1, amended: for a non-empty list of well-formed tensors of rank at least one.
  Unpacking the packed list into variables of the same shapes (the tensors themselves in
  particular) gives back every tensor, shape and elements; and unpacking a vector whose
  length is the sum of the element counts, then packing the tensors, gives back the vector.
\<close>

theorem pack_unpack_roundtrip:
  "(ts \<noteq> [] \<and> list_all ranked ts \<and> list_all wf_tensor ts \<and> map shape us = map shape ts \<longrightarrow>
      (\<exists>v. pack_tensors ts = Inr v \<and> unpack_tensors us v = (None, ts))) \<and>
   (ts \<noteq> [] \<and> list_all ranked ts \<and> length v = total_size ts \<longrightarrow>
      (\<exists>ts'. unpack_tensors ts v = (None, ts') \<and> map shape ts' = map shape ts \<and>
             list_all wf_tensor ts' \<and> pack_tensors ts' = Inr v))"
proof (intro conjI impI)
  assume a: "ts \<noteq> [] \<and> list_all ranked ts \<and> list_all wf_tensor ts \<and>
    map shape us = map shape ts"
  then have "unpack_from (NpInt 0) us ([] @ concat (map vals ts) @ []) = (None, ts)"
    by (intro unpack_from_pack) simp_all
  with a show "\<exists>v. pack_tensors ts = Inr v \<and> unpack_tensors us v = (None, ts)"
    by (simp add: unpack_tensors_def pack_tensors_nonempty)
next
  assume a: "ts \<noteq> [] \<and> list_all ranked ts \<and> length v = total_size ts"
  then have rk: "list_all ranked ts" and len: "length v = total_size ts" and ne: "ts \<noteq> []"
    by simp_all
  from unpack_tensors_exact [OF rk len] obtain ts' where
    ts': "unpack_tensors ts v = (None, ts')" "map shape ts' = map shape ts"
      "list_all wf_tensor ts'" "concat (map vals ts') = v"
    by blast
  from ts'(2) ne have "ts' \<noteq> []" by auto
  with ts' show "\<exists>ts'. unpack_tensors ts v = (None, ts') \<and> map shape ts' = map shape ts \<and>
             list_all wf_tensor ts' \<and> pack_tensors ts' = Inr v"
    by (simp add: pack_tensors_nonempty)
qed

text \<open>
  The round trip at shapes (2,2) and (3,).
\<close>

theorem pack_unpack_roundtrip_witness:
  "list_all ranked [\<lparr>shape = [2, 2], vals = [1, 2, 3, 4 :: int]\<rparr>, \<lparr>shape = [3], vals = [5, 6, 7]\<rparr>] \<and>
   list_all wf_tensor [\<lparr>shape = [2, 2], vals = [1, 2, 3, 4 :: int]\<rparr>, \<lparr>shape = [3], vals = [5, 6, 7]\<rparr>] \<and>
   pack_tensors [\<lparr>shape = [2, 2], vals = [1, 2, 3, 4 :: int]\<rparr>, \<lparr>shape = [3], vals = [5, 6, 7]\<rparr>]
     = Inr [1, 2, 3, 4, 5, 6, 7] \<and>
   unpack_tensors [\<lparr>shape = [2, 2], vals = [0, 0, 0, 0 :: int]\<rparr>, \<lparr>shape = [3], vals = [0, 0, 0]\<rparr>]
     [1, 2, 3, 4, 5, 6, 7]
     = (None, [\<lparr>shape = [2, 2], vals = [1, 2, 3, 4 :: int]\<rparr>, \<lparr>shape = [3], vals = [5, 6, 7]\<rparr>]) \<and>
   length [9, 8, 7, 6, 5, 4, 3 :: int]
     = total_size [\<lparr>shape = [2, 2], vals = [1, 2, 3, 4 :: int]\<rparr>, \<lparr>shape = [3], vals = [5, 6, 7]\<rparr>] \<and>
   (\<exists>ts'. unpack_tensors [\<lparr>shape = [2, 2], vals = [1, 2, 3, 4 :: int]\<rparr>, \<lparr>shape = [3], vals = [5, 6, 7]\<rparr>]
            [9, 8, 7, 6, 5, 4, 3] = (None, ts') \<and>
          pack_tensors ts' = Inr [9, 8, 7, 6, 5, 4, 3])"
  using pack_unpack_roundtrip
    [of "[\<lparr>shape = [2, 2], vals = [1, 2, 3, 4 :: int]\<rparr>, \<lparr>shape = [3], vals = [5, 6, 7]\<rparr>]"
        "[\<lparr>shape = [2, 2], vals = [0, 0, 0, 0 :: int]\<rparr>, \<lparr>shape = [3], vals = [0, 0, 0]\<rparr>]"
        "[9, 8, 7, 6, 5, 4, 3]"]
  by (auto simp add: wf_tensor_def ranked_def num_elements_def total_size_def
      pack_tensors_nonempty)

text \<open>
  Claim C2 as stated fails at the empty sequence: the sum of the element counts is 0, but
  \<^verbatim>\<open>pack_tensors\<close> raises instead of returning a vector of length 0.
\<close>

theorem pack_nothing_counterexample:
  "total_size ([] :: int tensor list) = 0 \<and>
   pack_tensors ([] :: int tensor list) = Inl concat_nothing_error"
  by (simp add: total_size_def pack_tensors_empty)

text \<open>
  Claim C2, amended: for a non-empty sequence. The packed vector is the concatenation of
  the tensors' elements in the order of the list, so its length is the sum of the element
  counts; tensors of shapes (2,2) and (3,) pack into 7 elements, and a vector of 7 elements
  unpacks into them as a tensor of shape (2,2) holding its first four elements and a
  tensor of shape (3,) holding its last three.
\<close>

theorem pack_layout:
  "(ts \<noteq> [] \<longrightarrow> pack_tensors ts = Inr (concat (map vals ts))) \<and>
   (ts \<noteq> [] \<and> list_all wf_tensor ts \<longrightarrow>
      (\<exists>v. pack_tensors ts = Inr v \<and> length v = total_size ts)) \<and>
   (list_all wf_tensor ts \<and> map shape ts = [[2, 2], [3]] \<longrightarrow>
      (\<exists>v. pack_tensors ts = Inr v \<and> length v = 7)) \<and>
   (map shape ts = [[2, 2], [3]] \<and> length v = 7 \<longrightarrow>
      unpack_tensors ts v
        = (None, [\<lparr>shape = [2, 2], vals = take 4 v\<rparr>, \<lparr>shape = [3], vals = drop 4 v\<rparr>]))"
proof (intro conjI impI)
  assume "ts \<noteq> []"
  then show "pack_tensors ts = Inr (concat (map vals ts))"
    by (rule pack_tensors_nonempty)
next
  assume "ts \<noteq> [] \<and> list_all wf_tensor ts"
  then show "\<exists>v. pack_tensors ts = Inr v \<and> length v = total_size ts"
    by (simp add: pack_tensors_nonempty length_concat_vals)
next
  assume a: "list_all wf_tensor ts \<and> map shape ts = [[2, 2], [3]]"
  then have "total_size ts = 7" and "ts \<noteq> []"
    by (auto simp add: total_size_def num_elements_def)
  with a show "\<exists>v. pack_tensors ts = Inr v \<and> length v = 7"
    by (simp add: pack_tensors_nonempty length_concat_vals)
next
  assume a: "map shape ts = [[2, 2], [3]] \<and> length v = 7"
  then obtain t1 t2 where ts: "ts = [t1, t2]" and s1: "shape t1 = [2, 2]" and s2: "shape t2 = [3]"
    by auto
  from a have len: "length v = 7" by simp
  have n1: "num_elements (shape t1) = 4" and n2: "num_elements (shape t2) = 3"
    by (simp_all add: s1 s2 num_elements_def)
  have r1: "shape t1 \<noteq> []" and r2: "shape t2 \<noteq> []"
    by (simp_all add: s1 s2)
  have f1: "0 + num_elements (shape t1) \<le> length v"
    and f2: "4 + num_elements (shape t2) \<le> length v"
    by (simp_all add: n1 n2 len)
  have e1: "t1\<lparr>vals := take 4 v\<rparr> = \<lparr>shape = [2, 2], vals = take 4 v\<rparr>"
    and e2: "t2\<lparr>vals := drop 4 v\<rparr> = \<lparr>shape = [3], vals = drop 4 v\<rparr>"
    by (simp_all add: s1 [symmetric] s2 [symmetric])
  have "unpack_from (NpInt 4) [t2] v = (None, [t2\<lparr>vals := take 3 (drop 4 v)\<rparr>])"
    using unpack_step_ok [OF r2 f2, of "[]"] by (simp add: n2)
  moreover have "take 3 (drop 4 v) = drop 4 v"
    by (simp add: len)
  ultimately have "unpack_from (NpInt 0) [t1, t2] v
      = (None, [t1\<lparr>vals := take 4 v\<rparr>, t2\<lparr>vals := drop 4 v\<rparr>])"
    using unpack_step_ok [OF r1 f1, of "[t2]"] by (simp add: n1)
  then show "unpack_tensors ts v
        = (None, [\<lparr>shape = [2, 2], vals = take 4 v\<rparr>, \<lparr>shape = [3], vals = drop 4 v\<rparr>])"
    by (simp add: unpack_tensors_def ts e1 e2)
qed

text \<open>
  Packing shapes (2,2) and (3,) puts the first tensor's four elements first; unpacking
  seven elements overwrites both tensors.
\<close>

theorem pack_layout_witness:
  "list_all wf_tensor [\<lparr>shape = [2, 2], vals = [1, 2, 3, 4 :: int]\<rparr>, \<lparr>shape = [3], vals = [5, 6, 7]\<rparr>] \<and>
   pack_tensors [\<lparr>shape = [2, 2], vals = [1, 2, 3, 4 :: int]\<rparr>, \<lparr>shape = [3], vals = [5, 6, 7]\<rparr>]
     = Inr [1, 2, 3, 4, 5, 6, 7] \<and>
   length [1, 2, 3, 4, 5, 6, 7 :: int] = 7 \<and>
   unpack_tensors [\<lparr>shape = [2, 2], vals = [1, 2, 3, 4 :: int]\<rparr>, \<lparr>shape = [3], vals = [5, 6, 7]\<rparr>]
     [9, 8, 7, 6, 5, 4, 3]
     = (None, [\<lparr>shape = [2, 2], vals = [9, 8, 7, 6]\<rparr>, \<lparr>shape = [3], vals = [5, 4, 3]\<rparr>])"
  using pack_layout
    [of "[\<lparr>shape = [2, 2], vals = [1, 2, 3, 4 :: int]\<rparr>, \<lparr>shape = [3], vals = [5, 6, 7]\<rparr>]"
        "[9, 8, 7, 6, 5, 4, 3]"]
  by (simp add: wf_tensor_def num_elements_def)

text \<open>
  Claim C7 as stated fails for a vector that is too long: four elements unpack into a tensor
  of three without any error, and the fourth is dropped.
\<close>

theorem unpack_long_vector_counterexample:
  "length [1, 2, 3, 4 :: int] \<noteq> total_size [\<lparr>shape = [3], vals = [0, 0, 0 :: int]\<rparr>] \<and>
   unpack_tensors [\<lparr>shape = [3], vals = [0, 0, 0]\<rparr>] [1, 2, 3, 4 :: int]
     = (None, [\<lparr>shape = [3], vals = [1, 2, 3]\<rparr>])"
  by (simp add: unpack_eval)

text \<open>
  Claim C7, amended: for a vector that is too short. A vector shorter than the sum of the
  element counts makes \<^verbatim>\<open>unpack_tensors\<close> fail, and the assignment is not completed: the
  last tensor is as it was.
\<close>

theorem unpack_short_vector_fails:
  "length v < total_size ts \<Longrightarrow>
   \<exists>e us. unpack_tensors ts v = (Some e, us) \<and> us \<noteq> [] \<and> last us = last ts"
proof -
  assume "length v < total_size ts"
  then have "0 \<le> length v" "length v < 0 + total_size ts" by simp_all
  from unpack_from_short_last [OF this] show ?thesis
    by (simp add: unpack_tensors_def)
qed

text \<open>
  A short vector fails after the first tensor has been assigned.
\<close>

theorem unpack_short_vector_fails_witness:
  "length [1, 2, 3, 4 :: int]
     < total_size [\<lparr>shape = [2], vals = [0, 0 :: int]\<rparr>, \<lparr>shape = [3], vals = [0, 0, 0]\<rparr>] \<and>
   (\<exists>e. unpack_tensors [\<lparr>shape = [2], vals = [0, 0 :: int]\<rparr>, \<lparr>shape = [3], vals = [0, 0, 0]\<rparr>]
          [1, 2, 3, 4]
      = (Some e, [\<lparr>shape = [2], vals = [1, 2]\<rparr>, \<lparr>shape = [3], vals = [0, 0, 0]\<rparr>]))"
  using unpack_short_vector_fails
    [of "[1, 2, 3, 4 :: int]" "[\<lparr>shape = [2], vals = [0, 0 :: int]\<rparr>, \<lparr>shape = [3], vals = [0, 0, 0]\<rparr>]"]
  by (simp add: unpack_eval)

section \<open>Properties of the evaluation function\<close>

lemma eval_func_normal:
  assumes "unpack_tensors (variables w) x = (None, vs)"
    and "f vs (user w) = (Inr (loss, grads), u1)"
  shows "eval_func (PyFun f) (PyFun g) x w =
           (case g loss vs grads u1 of (r, u2) \<Rightarrow>
              (case r of
                 Inl e \<Rightarrow> Inl e
               | Inr u \<Rightarrow> (case pack_tensors grads of
                             Inl e \<Rightarrow> Inl e
                           | Inr packed \<Rightarrow> Inr (loss, packed)),
               w\<lparr>variables := vs, user := u2,
                 trace := trace w @ [Closure_called vs, Callback_called loss vs grads]\<rparr>))"
  using assms
  by (simp add: eval_func_def loss_gradients_def call_step_callback_def
      split: prod.splits sum.splits)

lemma eval_func_skip:
  assumes "unpack_tensors (variables w) x = (None, vs)"
    and "f vs (user w) = (Inr (loss, grads), u1)"
    and "\<not> callable cb"
  shows "eval_func (PyFun f) cb x w =
           (case pack_tensors grads of Inl e \<Rightarrow> Inl e | Inr packed \<Rightarrow> Inr (loss, packed),
            w\<lparr>variables := vs, user := u1, trace := trace w @ [Closure_called vs]\<rparr>)"
  using assms
  by (simp add: eval_func_def loss_gradients_def split: sum.splits)

lemma eval_func_closure_raises:
  assumes "unpack_tensors (variables w) x = (None, vs)"
    and "f vs (user w) = (Inl e, u1)"
  shows "eval_func (PyFun f) cb x w =
           (Inl e, w\<lparr>variables := vs, user := u1, trace := trace w @ [Closure_called vs]\<rparr>)"
  using assms
  by (simp add: eval_func_def loss_gradients_def)

lemma eval_func_trace:
  "\<exists>tr. trace (snd (eval_func c cb x w)) = trace w @ tr \<and> eval_points tr = [] \<and>
        solver_calls tr = [] \<and> length (callback_calls tr) \<le> 1 \<and>
        length (closure_calls tr) \<le> 1"
  by (auto simp add: eval_func_def loss_gradients_def call_step_callback_def
      split: prod.splits option.splits sum.splits pyobj.splits)

lemma eval_func_variables:
  "variables (snd (eval_func c cb x w)) = snd (unpack_tensors (variables w) x)"
  by (auto simp add: eval_func_def loss_gradients_def call_step_callback_def
      split: prod.splits option.splits sum.splits pyobj.splits)

lemma unpack_world0:
  "unpack_tensors (variables world0) [1, 2, 3]
     = (None, [\<lparr>shape = [2], vals = [1, 2]\<rparr>, \<lparr>shape = [1], vals = [3]\<rparr>])"
  by (simp add: world0_def unpack_eval)

text \<open>
  Claim C4 as stated fails at a scalar parameter and at an empty parameter list, both with
  a vector of the right length. With a scalar, unpacking raises \<^verbatim>\<open>TypeError\<close> and neither
  the closure nor the callback is called. With no parameter, closure and callback are
  called, and then packing the empty gradient list raises.
\<close>

theorem eval_func_counterexample:
  "length [3 :: int] = total_size (variables scalar_world) \<and>
   eval_func (PyFun quadratic) (PyFun logger) [3] scalar_world
     = (Inl slice_index_error, scalar_world) \<and>
   length ([] :: int list) = total_size (variables empty_world) \<and>
   eval_func (PyFun quadratic) (PyFun logger) [] empty_world
     = (Inl concat_nothing_error,
        \<lparr>variables = [], user = [''loss'', ''step''],
         trace = [Closure_called [], Callback_called 0 [] []]\<rparr>)"
  by (simp add: scalar_world_def empty_world_def eval_func_def unpack_eval loss_gradients_def
      call_step_callback_def quadratic_def logger_def pack_tensors_empty)

text \<open>
  Claim C4, amended: for parameters of rank at least one and a closure that returns at
  least one gradient. Let \<open>x\<close> have the length the parameters need, let the closure return
  normally on the unpacked parameters, and let the callback, when there is one, return
  normally. Then one call of the evaluation function (1) leaves in the tensors exactly
  \<open>x\<close>, shapes unchanged; (2) then calls the closure, which sees the unpacked tensors;
  (3) then calls the callback, if callable, with the loss, the tensors and the gradients,
  in the user state the closure left; (4) returns the loss and the gradients' elements
  concatenated in order. The trace holds these calls in this order and nothing else.
\<close>

theorem eval_func_steps:
  assumes rk: "list_all ranked (variables w)"
    and len: "length x = total_size (variables w)"
    and unp: "vs = snd (unpack_tensors (variables w) x)"
    and cl: "f vs (user w) = (Inr (loss, grads), u1)"
    and ng: "grads \<noteq> []"
    and cb: "case step_callback of PyFun g \<Rightarrow> g loss vs grads u1 = (Inr (), u2)
               | PyNone \<Rightarrow> u2 = u1 | PyData d \<Rightarrow> u2 = u1"
  shows "unpack_tensors (variables w) x = (None, vs) \<and>
         map shape vs = map shape (variables w) \<and> concat (map vals vs) = x \<and>
         eval_func (PyFun f) step_callback x w =
           (Inr (loss, concat (map vals grads)),
            w\<lparr>variables := vs, user := u2,
              trace := trace w @ Closure_called vs #
                (if callable step_callback then [Callback_called loss vs grads] else [])\<rparr>)"
proof -
  from unpack_tensors_exact [OF rk len] unp
  have u: "unpack_tensors (variables w) x = (None, vs)"
    and sh: "map shape vs = map shape (variables w)" and pk: "concat (map vals vs) = x"
    by auto
  note p = pack_tensors_nonempty [OF ng]
  have "eval_func (PyFun f) step_callback x w =
           (Inr (loss, concat (map vals grads)),
            w\<lparr>variables := vs, user := u2,
              trace := trace w @ Closure_called vs #
                (if callable step_callback then [Callback_called loss vs grads] else [])\<rparr>)"
  proof (cases step_callback)
    case (PyFun g)
    with cb have "g loss vs grads u1 = (Inr (), u2)" by simp
    with eval_func_normal [where f = f and g = g, OF u cl] PyFun p show ?thesis by simp
  next
    case PyNone
    with cb eval_func_skip [where f = f and cb = step_callback, OF u cl] p show ?thesis by simp
  next
    case (PyData d)
    with cb eval_func_skip [where f = f and cb = step_callback, OF u cl] p show ?thesis by simp
  qed
  with u sh pk show ?thesis by simp
qed

text \<open>
  One evaluation of the quadratic loss at \<open>[1, 2, 3]\<close>, observed by the logger.
\<close>

theorem eval_func_steps_witness:
  "list_all ranked (variables world0) \<and>
   length [1, 2, 3 :: int] = total_size (variables world0) \<and>
   quadratic [\<lparr>shape = [2], vals = [1, 2]\<rparr>, \<lparr>shape = [1], vals = [3]\<rparr>] (user world0)
     = (Inr (14, [\<lparr>shape = [2], vals = [2, 4]\<rparr>, \<lparr>shape = [1], vals = [6]\<rparr>]), [''loss'']) \<and>
   logger 14 [\<lparr>shape = [2], vals = [1, 2]\<rparr>, \<lparr>shape = [1], vals = [3]\<rparr>]
     [\<lparr>shape = [2], vals = [2, 4]\<rparr>, \<lparr>shape = [1], vals = [6]\<rparr>] [''loss'']
     = (Inr (), [''loss'', ''step'']) \<and>
   eval_func (PyFun quadratic) (PyFun logger) [1, 2, 3] world0 =
     (Inr (14, [2, 4, 6]),
      \<lparr>variables = [\<lparr>shape = [2], vals = [1, 2]\<rparr>, \<lparr>shape = [1], vals = [3]\<rparr>],
       user = [''loss'', ''step''],
       trace = [Closure_called [\<lparr>shape = [2], vals = [1, 2]\<rparr>, \<lparr>shape = [1], vals = [3]\<rparr>],
                Callback_called 14 [\<lparr>shape = [2], vals = [1, 2]\<rparr>, \<lparr>shape = [1], vals = [3]\<rparr>]
                  [\<lparr>shape = [2], vals = [2, 4]\<rparr>, \<lparr>shape = [1], vals = [6]\<rparr>]]\<rparr>)"
  using eval_func_steps
    [where x = "[1, 2, 3]" and w = world0 and f = quadratic and step_callback = "PyFun logger"
       and vs = "[\<lparr>shape = [2], vals = [1, 2]\<rparr>, \<lparr>shape = [1], vals = [3]\<rparr>]"
       and loss = 14 and grads = "[\<lparr>shape = [2], vals = [2, 4]\<rparr>, \<lparr>shape = [1], vals = [6]\<rparr>]"
       and ?u1.0 = "[''loss'']" and ?u2.0 = "[''loss'', ''step'']"]
  by (simp add: unpack_world0 quadratic_def logger_def)
     (simp add: world0_def total_size_def num_elements_def ranked_def)

text \<open>
  Claim C5. With a callable callback, no evaluation calls it more than once; and an
  evaluation that unpacks its vector and computes the loss calls it exactly once, after the
  closure, with the loss and the gradients the closure returned in this very evaluation and
  with the tensors just unpacked from the vector.
\<close>

theorem step_callback_once:
  "(\<exists>tr. trace (snd (eval_func closure (PyFun g) x w)) = trace w @ tr \<and>
         length (callback_calls tr) \<le> 1) \<and>
   (unpack_tensors (variables w) x = (None, vs) \<and> closure = PyFun f \<and>
    f vs (user w) = (Inr (loss, grads), u1) \<longrightarrow>
      trace (snd (eval_func closure (PyFun g) x w))
        = trace w @ [Closure_called vs, Callback_called loss vs grads] \<and>
      callback_calls [Closure_called vs, Callback_called loss vs grads] = [(loss, vs, grads)] \<and>
      variables (snd (eval_func closure (PyFun g) x w)) = vs \<and>
      user (snd (eval_func closure (PyFun g) x w)) = snd (g loss vs grads u1))"
proof (intro conjI impI)
  from eval_func_trace [of closure "PyFun g" x w]
  show "\<exists>tr. trace (snd (eval_func closure (PyFun g) x w)) = trace w @ tr \<and>
         length (callback_calls tr) \<le> 1"
    by blast
next
  assume a: "unpack_tensors (variables w) x = (None, vs) \<and> closure = PyFun f \<and>
    f vs (user w) = (Inr (loss, grads), u1)"
  then have u: "unpack_tensors (variables w) x = (None, vs)"
    and cl: "f vs (user w) = (Inr (loss, grads), u1)" and c: "closure = PyFun f"
    by simp_all
  note e = eval_func_normal [where f = f and g = g, OF u cl]
  show "trace (snd (eval_func closure (PyFun g) x w))
        = trace w @ [Closure_called vs, Callback_called loss vs grads]"
    by (simp add: c e split: prod.splits)
  show "callback_calls [Closure_called vs, Callback_called loss vs grads] = [(loss, vs, grads)]"
    by simp
  show "variables (snd (eval_func closure (PyFun g) x w)) = vs"
    by (simp add: c e split: prod.splits)
  show "user (snd (eval_func closure (PyFun g) x w)) = snd (g loss vs grads u1)"
    by (simp add: c e split: prod.splits)
qed

text \<open>
  The logger is called once, with loss 14 at \<open>[1, 2, 3]\<close>.
\<close>

theorem step_callback_once_witness:
  "unpack_tensors (variables world0) [1, 2, 3]
     = (None, [\<lparr>shape = [2], vals = [1, 2]\<rparr>, \<lparr>shape = [1], vals = [3]\<rparr>]) \<and>
   quadratic [\<lparr>shape = [2], vals = [1, 2]\<rparr>, \<lparr>shape = [1], vals = [3]\<rparr>] (user world0)
     = (Inr (14, [\<lparr>shape = [2], vals = [2, 4]\<rparr>, \<lparr>shape = [1], vals = [6]\<rparr>]), [''loss'']) \<and>
   callback_calls (trace (snd (eval_func (PyFun quadratic) (PyFun logger) [1, 2, 3] world0)))
     = [(14, [\<lparr>shape = [2], vals = [1, 2]\<rparr>, \<lparr>shape = [1], vals = [3]\<rparr>],
         [\<lparr>shape = [2], vals = [2, 4]\<rparr>, \<lparr>shape = [1], vals = [6]\<rparr>])] \<and>
   user (snd (eval_func (PyFun quadratic) (PyFun logger) [1, 2, 3] world0)) = [''loss'', ''step'']"
  using step_callback_once
    [where x = "[1, 2, 3]" and w = world0 and f = quadratic and g = logger
       and closure = "PyFun quadratic"
       and vs = "[\<lparr>shape = [2], vals = [1, 2]\<rparr>, \<lparr>shape = [1], vals = [3]\<rparr>]"
       and loss = 14 and grads = "[\<lparr>shape = [2], vals = [2, 4]\<rparr>, \<lparr>shape = [1], vals = [6]\<rparr>]"
       and ?u1.0 = "[''loss'']"]
  by (simp add: unpack_world0 quadratic_def logger_def)
     (simp add: world0_def)

text \<open>
  Claim C8. What the closure raises is what the evaluation function raises: the callback is
  not called, the closure is not called again, and the world is as the closure left it. What
  the callback raises is what the evaluation function raises, too.
\<close>

theorem eval_func_propagates:
  "(unpack_tensors (variables w) x = (None, vs) \<and> f vs (user w) = (Inl e, u1) \<longrightarrow>
      eval_func (PyFun f) step_callback x w =
        (Inl e, w\<lparr>variables := vs, user := u1, trace := trace w @ [Closure_called vs]\<rparr>)) \<and>
   (unpack_tensors (variables w) x = (None, vs) \<and> f vs (user w) = (Inr (loss, grads), u1) \<and>
    g loss vs grads u1 = (Inl e, u2) \<longrightarrow>
      eval_func (PyFun f) (PyFun g) x w =
        (Inl e, w\<lparr>variables := vs, user := u2,
                  trace := trace w @ [Closure_called vs, Callback_called loss vs grads]\<rparr>))"
proof (intro conjI impI)
  assume "unpack_tensors (variables w) x = (None, vs) \<and> f vs (user w) = (Inl e, u1)"
  then have u: "unpack_tensors (variables w) x = (None, vs)" and cl: "f vs (user w) = (Inl e, u1)"
    by simp_all
  from eval_func_closure_raises [where f = f, OF u cl]
  show "eval_func (PyFun f) step_callback x w =
        (Inl e, w\<lparr>variables := vs, user := u1, trace := trace w @ [Closure_called vs]\<rparr>)" .
next
  assume "unpack_tensors (variables w) x = (None, vs) \<and> f vs (user w) = (Inr (loss, grads), u1) \<and>
    g loss vs grads u1 = (Inl e, u2)"
  then have u: "unpack_tensors (variables w) x = (None, vs)"
    and cl: "f vs (user w) = (Inr (loss, grads), u1)" and cb: "g loss vs grads u1 = (Inl e, u2)"
    by simp_all
  from eval_func_normal [where f = f and g = g, OF u cl] cb
  show "eval_func (PyFun f) (PyFun g) x w =
        (Inl e, w\<lparr>variables := vs, user := u2,
                  trace := trace w @ [Closure_called vs, Callback_called loss vs grads]\<rparr>)"
    by simp
qed

text \<open>
  A closure that raises, and a callback that raises.
\<close>

theorem eval_func_propagates_witness:
  "unpack_tensors (variables world0) [1, 2, 3]
     = (None, [\<lparr>shape = [2], vals = [1, 2]\<rparr>, \<lparr>shape = [1], vals = [3]\<rparr>]) \<and>
   failing [\<lparr>shape = [2], vals = [1, 2]\<rparr>, \<lparr>shape = [1], vals = [3]\<rparr>] (user world0)
     = (Inl (Raised ''loss is not finite''), [''loss'']) \<and>
   fst (eval_func (PyFun failing) (PyFun logger) [1, 2, 3] world0)
     = Inl (Raised ''loss is not finite'') \<and>
   user (snd (eval_func (PyFun failing) (PyFun logger) [1, 2, 3] world0)) = [''loss''] \<and>
   quadratic [\<lparr>shape = [2], vals = [1, 2]\<rparr>, \<lparr>shape = [1], vals = [3]\<rparr>] (user world0)
     = (Inr (14, [\<lparr>shape = [2], vals = [2, 4]\<rparr>, \<lparr>shape = [1], vals = [6]\<rparr>]), [''loss'']) \<and>
   failing_logger 14 [\<lparr>shape = [2], vals = [1, 2]\<rparr>, \<lparr>shape = [1], vals = [3]\<rparr>]
     [\<lparr>shape = [2], vals = [2, 4]\<rparr>, \<lparr>shape = [1], vals = [6]\<rparr>] [''loss'']
     = (Inl (Raised ''disk full''), [''loss'', ''step'']) \<and>
   fst (eval_func (PyFun quadratic) (PyFun failing_logger) [1, 2, 3] world0)
     = Inl (Raised ''disk full'') \<and>
   user (snd (eval_func (PyFun quadratic) (PyFun failing_logger) [1, 2, 3] world0))
     = [''loss'', ''step'']"
  using eval_func_propagates
    [where x = "[1, 2, 3]" and w = world0 and f = failing and step_callback = "PyFun logger"
       and vs = "[\<lparr>shape = [2], vals = [1, 2]\<rparr>, \<lparr>shape = [1], vals = [3]\<rparr>]"
       and e = "Raised ''loss is not finite''" and ?u1.0 = "[''loss'']"]
    eval_func_propagates
    [where x = "[1, 2, 3]" and w = world0 and f = quadratic and g = failing_logger
       and vs = "[\<lparr>shape = [2], vals = [1, 2]\<rparr>, \<lparr>shape = [1], vals = [3]\<rparr>]"
       and loss = 14 and grads = "[\<lparr>shape = [2], vals = [2, 4]\<rparr>, \<lparr>shape = [1], vals = [6]\<rparr>]"
       and e = "Raised ''disk full''" and ?u1.0 = "[''loss'']" and ?u2.0 = "[''loss'', ''step'']"]
  by (simp add: unpack_world0 quadratic_def failing_def failing_logger_def)
     (simp add: world0_def)

text \<open>
  Claim C10. A callback that is an object but cannot be called would raise
  \<^verbatim>\<open>TypeError\<close> if it were called; the guard \<^verbatim>\<open>callable(step_callback)\<close> skips it, so the
  evaluation is the one with no callback at all: after the closure it goes straight to
  packing the gradients, and ends normally with the loss and the packed gradients when the
  closure does and there is a gradient to pack.
\<close>

theorem uncallable_step_callback_skipped:
  "fst (call_step_callback (PyData d) loss vs grads w1) = Inl (TypeError ''object is not callable'') \<and>
   eval_func closure (PyData d) x w = eval_func closure PyNone x w \<and>
   (unpack_tensors (variables w) x = (None, vs) \<and> f vs (user w) = (Inr (loss, grads), u1) \<longrightarrow>
      eval_func (PyFun f) (PyData d) x w =
        (case pack_tensors grads of Inl e \<Rightarrow> Inl e | Inr packed \<Rightarrow> Inr (loss, packed),
         w\<lparr>variables := vs, user := u1, trace := trace w @ [Closure_called vs]\<rparr>)) \<and>
   (unpack_tensors (variables w) x = (None, vs) \<and> f vs (user w) = (Inr (loss, grads), u1) \<and>
    grads \<noteq> [] \<longrightarrow>
      eval_func (PyFun f) (PyData d) x w =
        (Inr (loss, concat (map vals grads)),
         w\<lparr>variables := vs, user := u1, trace := trace w @ [Closure_called vs]\<rparr>))"
proof (intro conjI impI)
  show "fst (call_step_callback (PyData d) loss vs grads w1)
          = Inl (TypeError ''object is not callable'')"
    by (simp add: call_step_callback_def)
  show "eval_func closure (PyData d) x w = eval_func closure PyNone x w"
    by (simp add: eval_func_def split: prod.splits option.splits sum.splits)
next
  assume "unpack_tensors (variables w) x = (None, vs) \<and> f vs (user w) = (Inr (loss, grads), u1)"
  then have u: "unpack_tensors (variables w) x = (None, vs)"
    and cl: "f vs (user w) = (Inr (loss, grads), u1)"
    by simp_all
  from eval_func_skip [where f = f and cb = "PyData d", OF u cl]
  show "eval_func (PyFun f) (PyData d) x w =
        (case pack_tensors grads of Inl e \<Rightarrow> Inl e | Inr packed \<Rightarrow> Inr (loss, packed),
         w\<lparr>variables := vs, user := u1, trace := trace w @ [Closure_called vs]\<rparr>)"
    by simp
next
  assume "unpack_tensors (variables w) x = (None, vs) \<and> f vs (user w) = (Inr (loss, grads), u1) \<and>
    grads \<noteq> []"
  then have u: "unpack_tensors (variables w) x = (None, vs)"
    and cl: "f vs (user w) = (Inr (loss, grads), u1)" and ng: "grads \<noteq> []"
    by simp_all
  from eval_func_skip [where f = f and cb = "PyData d", OF u cl] pack_tensors_nonempty [OF ng]
  show "eval_func (PyFun f) (PyData d) x w =
        (Inr (loss, concat (map vals grads)),
         w\<lparr>variables := vs, user := u1, trace := trace w @ [Closure_called vs]\<rparr>)"
    by simp
qed

text \<open>
  The string \<open>''42''\<close> given as callback.
\<close>

theorem uncallable_step_callback_skipped_witness:
  "unpack_tensors (variables world0) [1, 2, 3]
     = (None, [\<lparr>shape = [2], vals = [1, 2]\<rparr>, \<lparr>shape = [1], vals = [3]\<rparr>]) \<and>
   quadratic [\<lparr>shape = [2], vals = [1, 2]\<rparr>, \<lparr>shape = [1], vals = [3]\<rparr>] (user world0)
     = (Inr (14, [\<lparr>shape = [2], vals = [2, 4]\<rparr>, \<lparr>shape = [1], vals = [6]\<rparr>]), [''loss'']) \<and>
   eval_func (PyFun quadratic) (PyData ''42'') [1, 2, 3] world0 =
     (Inr (14, [2, 4, 6]),
      \<lparr>variables = [\<lparr>shape = [2], vals = [1, 2]\<rparr>, \<lparr>shape = [1], vals = [3]\<rparr>],
       user = [''loss''],
       trace = [Closure_called [\<lparr>shape = [2], vals = [1, 2]\<rparr>, \<lparr>shape = [1], vals = [3]\<rparr>]]\<rparr>)"
  using uncallable_step_callback_skipped
    [where x = "[1, 2, 3]" and w = world0 and f = quadratic and d = "''42''"
       and ?w1.0 = world0 and closure = "PyFun quadratic"
       and vs = "[\<lparr>shape = [2], vals = [1, 2]\<rparr>, \<lparr>shape = [1], vals = [3]\<rparr>]"
       and loss = 14 and grads = "[\<lparr>shape = [2], vals = [2, 4]\<rparr>, \<lparr>shape = [1], vals = [6]\<rparr>]"
       and ?u1.0 = "[''loss'']"]
  by (simp add: unpack_world0 quadratic_def)
     (auto simp add: world0_def)

section \<open>Properties of minimize\<close>

lemma eval_points_append: "eval_points (a @ b) = eval_points a @ eval_points b"
  by (induction a rule: eval_points.induct) simp_all

lemma solver_calls_append: "solver_calls (a @ b) = solver_calls a @ solver_calls b"
  by (induction a rule: solver_calls.induct) simp_all

lemma unpack_all_shapes: "map shape (unpack_all vars xs) = map shape vars"
  by (induction xs arbitrary: vars)
     (simp_all add: unpack_all_def unpack_tensors_def unpack_from_shapes)

lemma unpack_all_snoc:
  "unpack_all vars (xs @ [x]) = snd (unpack_tensors (unpack_all vars xs) x)"
  by (simp add: unpack_all_def)

lemma total_size_shapes: "map shape us = map shape ts \<Longrightarrow> total_size us = total_size ts"
proof -
  assume "map shape us = map shape ts"
  then have "map (\<lambda>t. num_elements (shape t)) us = map (\<lambda>t. num_elements (shape t)) ts"
    by (induction us arbitrary: ts) auto
  then show ?thesis by (simp add: total_size_def)
qed

lemma ranked_by_shapes: "list_all ranked ts = list_all (\<lambda>s. s \<noteq> []) (map shape ts)"
  by (induction ts) (simp_all add: ranked_def)

lemma ranked_shapes: "map shape us = map shape ts \<Longrightarrow> list_all ranked us = list_all ranked ts"
  by (simp add: ranked_by_shapes)

lemma unpack_all_last:
  assumes "xs \<noteq> []" and "list_all ranked vars" and "length (last xs) = total_size vars"
  shows "concat (map vals (unpack_all vars xs)) = last xs"
proof -
  from assms(1) obtain ys y where xs: "xs = ys @ [y]"
    by (cases xs rule: rev_cases) auto
  with assms(3) have len: "length y = total_size (unpack_all vars ys)"
    by (simp add: total_size_shapes [OF unpack_all_shapes])
  from assms(2) have rk: "list_all ranked (unpack_all vars ys)"
    by (simp add: ranked_shapes [OF unpack_all_shapes])
  from unpack_tensors_exact [OF rk len] show ?thesis
    by (auto simp add: xs unpack_all_snoc)
qed

lemma run_solver_replay:
  "\<exists>tr. trace (snd (run_solver sv (eval_func c cb) w)) = trace w @ tr \<and>
        solver_calls tr = [] \<and>
        variables (snd (run_solver sv (eval_func c cb) w))
          = unpack_all (variables w) (eval_points tr)"
proof (induction sv arbitrary: w)
  case (Return r)
  show ?case by (simp add: unpack_all_def)
next
  case (Raise e)
  show ?case by (simp add: unpack_all_def)
next
  case (Evaluate x k)
  let ?w0 = "w\<lparr>trace := trace w @ [Eval_called x]\<rparr>"
  obtain y w1 where ev: "eval_func c cb x ?w0 = (y, w1)"
    by (cases "eval_func c cb x ?w0")
  from eval_func_trace [of c cb x ?w0] ev obtain tr1 where
    tr1: "trace w1 = trace w @ Eval_called x # tr1" "eval_points tr1 = []" "solver_calls tr1 = []"
    by auto
  from eval_func_variables [of c cb x ?w0] ev
  have v1: "variables w1 = snd (unpack_tensors (variables w) x)"
    by simp
  from Evaluate.IH [of "k y" w1] obtain tr2 where
    tr2: "trace (snd (run_solver (k y) (eval_func c cb) w1)) = trace w1 @ tr2"
      "solver_calls tr2 = []"
      "variables (snd (run_solver (k y) (eval_func c cb) w1))
         = unpack_all (variables w1) (eval_points tr2)"
    by auto
  let ?tr = "Eval_called x # tr1 @ tr2"
  have "trace (snd (run_solver (Evaluate x k) (eval_func c cb) w)) = trace w @ ?tr"
    using ev tr1(1) tr2(1) by simp
  moreover have "solver_calls ?tr = []"
    using tr1(3) tr2(2) by (simp add: solver_calls_append)
  moreover have "variables (snd (run_solver (Evaluate x k) (eval_func c cb) w))
          = unpack_all (variables w) (eval_points ?tr)"
    using ev tr1(2) tr2(3) v1 by (simp add: eval_points_append unpack_all_def)
  ultimately show ?case by blast
qed

lemma minimize_callable:
  "callable closure \<Longrightarrow> variables w \<noteq> [] \<Longrightarrow>
   minimize solver closure cb kw w =
     run_solver (solver (concat (map vals (variables w))) True kw) (eval_func closure cb)
       (w\<lparr>trace := trace w @ [Solver_called (concat (map vals (variables w))) True kw]\<rparr>)"
  by (simp add: minimize_def scipy_optimize_minimize_def initial_parameters_def
      pack_tensors_nonempty Let_def)

lemma minimize_no_parameters:
  "callable closure \<Longrightarrow> variables w = [] \<Longrightarrow>
   minimize solver closure cb kw w = (Inl concat_nothing_error, w)"
  by (simp add: minimize_def initial_parameters_def pack_tensors_empty)

text \<open>
  Claim C3. With a closure that is not callable, \<^verbatim>\<open>minimize\<close> raises
  \<^verbatim>\<open>ValueError\<close> whatever the solver and whatever the parameters are, also when packing
  them would raise, and the world is untouched: the check comes before the initial vector
  is computed, the solver has not been called and nothing has been evaluated. With a
  callable closure \<^verbatim>\<open>minimize\<close> raises nothing of its own: its outcome is the error of
  packing the initial vector, if that raises (it does for an empty parameter list), and
  else the outcome of the solver call; then the solver is called, and a solver that returns
  at once makes \<^verbatim>\<open>minimize\<close> return.
\<close>

theorem minimize_checks_closure:
  "(\<not> callable closure \<longrightarrow>
      minimize solver closure step_callback scipy_kwargs w =
        (Inl (ValueError ''Callable object expected.''), w)) \<and>
   (callable closure \<longrightarrow>
      minimize solver closure step_callback scipy_kwargs w =
        (case initial_parameters (variables w) of
           Inl e \<Rightarrow> (Inl e, w)
         | Inr x0 \<Rightarrow> scipy_optimize_minimize solver (eval_func closure step_callback)
                      x0 True scipy_kwargs w)) \<and>
   (callable closure \<and> variables w = [] \<longrightarrow>
      minimize solver closure step_callback scipy_kwargs w = (Inl concat_nothing_error, w)) \<and>
   (callable closure \<and> variables w \<noteq> [] \<longrightarrow>
      (\<exists>tr. trace (snd (minimize solver closure step_callback scipy_kwargs w)) =
             trace w @ Solver_called (concat (map vals (variables w))) True scipy_kwargs # tr) \<and>
      (\<forall>r. solver (concat (map vals (variables w))) True scipy_kwargs = Return r \<longrightarrow>
           fst (minimize solver closure step_callback scipy_kwargs w) = Inr r))"
proof (intro conjI impI allI)
  assume "\<not> callable closure"
  then show "minimize solver closure step_callback scipy_kwargs w =
        (Inl (ValueError ''Callable object expected.''), w)"
    by (simp add: minimize_def)
next
  assume "callable closure"
  then show "minimize solver closure step_callback scipy_kwargs w =
        (case initial_parameters (variables w) of
           Inl e \<Rightarrow> (Inl e, w)
         | Inr x0 \<Rightarrow> scipy_optimize_minimize solver (eval_func closure step_callback)
                      x0 True scipy_kwargs w)"
    by (simp add: minimize_def Let_def split: sum.splits)
next
  assume "callable closure \<and> variables w = []"
  then show "minimize solver closure step_callback scipy_kwargs w
               = (Inl concat_nothing_error, w)"
    by (simp add: minimize_no_parameters)
next
  assume c: "callable closure \<and> variables w \<noteq> []"
  let ?x0 = "concat (map vals (variables w))"
  let ?w0 = "w\<lparr>trace := trace w @ [Solver_called ?x0 True scipy_kwargs]\<rparr>"
  let ?run = "run_solver (solver ?x0 True scipy_kwargs) (eval_func closure step_callback) ?w0"
  from c have m: "minimize solver closure step_callback scipy_kwargs w = ?run"
    by (simp add: minimize_callable)
  from run_solver_replay [of "solver ?x0 True scipy_kwargs" closure step_callback ?w0]
  obtain tr where "trace (snd ?run) = trace ?w0 @ tr"
    by blast
  with m show "\<exists>tr. trace (snd (minimize solver closure step_callback scipy_kwargs w)) =
             trace w @ Solver_called ?x0 True scipy_kwargs # tr"
    by simp
  fix r
  assume "solver ?x0 True scipy_kwargs = Return r"
  with m show "fst (minimize solver closure step_callback scipy_kwargs w) = Inr r"
    by simp
qed

text \<open>
  A string as closure, with parameters that pack and with an empty parameter list, whose
  packing would raise; and the quadratic loss with a solver that returns at once.
\<close>

theorem minimize_checks_closure_witness:
  "\<not> callable (PyData ''loss'' :: (int, string list) loss_closure pyobj) \<and>
   minimize one_step_solver (PyData ''loss'') (PyFun logger) [] world0 =
     (Inl (ValueError ''Callable object expected.''), world0) \<and>
   initial_parameters (variables empty_world) = Inl concat_nothing_error \<and>
   minimize one_step_solver (PyData ''loss'') (PyFun logger) [] empty_world =
     (Inl (ValueError ''Callable object expected.''), empty_world) \<and>
   callable (PyFun quadratic) \<and> variables world0 \<noteq> [] \<and>
   idle_solver (concat (map vals (variables world0))) True [] = Return [0, 0, 0] \<and>
   fst (minimize idle_solver (PyFun quadratic) (PyFun logger) [] world0) = Inr [0, 0, 0] \<and>
   minimize idle_solver (PyFun quadratic) (PyFun logger) [] world0 =
     (Inr [0, 0, 0], world0\<lparr>trace := [Solver_called [0, 0, 0] True []]\<rparr>)"
proof -
  have h1: "\<not> callable (PyData ''loss'' :: (int, string list) loss_closure pyobj)"
    by simp
  from h1 minimize_checks_closure
    [where closure = "PyData ''loss''" and solver = one_step_solver
       and step_callback = "PyFun logger" and scipy_kwargs = "[]" and w = world0]
  have g1: "minimize one_step_solver (PyData ''loss'') (PyFun logger) [] world0 =
     (Inl (ValueError ''Callable object expected.''), world0)"
    by blast
  have g2: "initial_parameters (variables empty_world) = Inl concat_nothing_error"
    by (simp add: initial_parameters_def empty_world_def pack_tensors_empty)
  from h1 minimize_checks_closure
    [where closure = "PyData ''loss''" and solver = one_step_solver
       and step_callback = "PyFun logger" and scipy_kwargs = "[]" and w = empty_world]
  have g3: "minimize one_step_solver (PyData ''loss'') (PyFun logger) [] empty_world =
     (Inl (ValueError ''Callable object expected.''), empty_world)"
    by blast
  have h2: "callable (PyFun quadratic)" by simp
  have h3: "variables world0 \<noteq> []" by (simp add: world0_def)
  have h4: "idle_solver (concat (map vals (variables world0))) True [] = Return [0, 0, 0]"
    by (simp add: idle_solver_def world0_def)
  from h2 h3 h4 minimize_checks_closure
    [where closure = "PyFun quadratic" and solver = idle_solver
       and step_callback = "PyFun logger" and scipy_kwargs = "[]" and w = world0]
  have g4: "fst (minimize idle_solver (PyFun quadratic) (PyFun logger) [] world0) = Inr [0, 0, 0]"
    by blast
  have g5: "minimize idle_solver (PyFun quadratic) (PyFun logger) [] world0 =
     (Inr [0, 0, 0], world0\<lparr>trace := [Solver_called [0, 0, 0] True []]\<rparr>)"
    by (simp add: minimize_callable [OF h2 h3] h4) (simp add: world0_def)
  from h1 g1 g2 g3 h2 h3 h4 g4 g5 show ?thesis
    by blast
qed

text \<open>
  Claim C6 as stated fails for an empty parameter list: packing it raises, so
  \<^verbatim>\<open>minimize\<close> raises before any solver is called, although the solver here would return
  at once.
\<close>

theorem minimize_no_parameters_counterexample:
  "callable (PyFun quadratic) \<and>
   minimize idle_solver (PyFun quadratic) PyNone [] empty_world
     = (Inl concat_nothing_error, empty_world) \<and>
   solver_calls (trace (snd (minimize idle_solver (PyFun quadratic) PyNone [] empty_world))) = []"
  by (simp add: minimize_def initial_parameters_def pack_tensors_empty empty_world_def)

text \<open>
  Claim C6, amended: for a non-empty parameter list. With a callable closure,
  \<^verbatim>\<open>minimize\<close> is one call of the solver: on the concatenation of the current elements of
  the tensors as initial vector, with \<^verbatim>\<open>jac=True\<close> and the caller's options unchanged; the
  solver works on the evaluation function of the closure and the callback, and what the
  solver call gives (result or exception, and the world) is what \<^verbatim>\<open>minimize\<close> gives. The
  trace has this one call of the solver, as its first new event.
\<close>

theorem minimize_delegates:
  assumes "callable closure" and "variables w \<noteq> []"
  shows "\<exists>tr. minimize solver closure step_callback scipy_kwargs w =
           run_solver (solver (concat (map vals (variables w))) True scipy_kwargs)
             (eval_func closure step_callback)
             (w\<lparr>trace := trace w @
                  [Solver_called (concat (map vals (variables w))) True scipy_kwargs]\<rparr>) \<and>
         trace (snd (minimize solver closure step_callback scipy_kwargs w)) =
           trace w @ Solver_called (concat (map vals (variables w))) True scipy_kwargs # tr \<and>
         solver_calls tr = []"
proof -
  let ?x0 = "concat (map vals (variables w))"
  let ?w0 = "w\<lparr>trace := trace w @ [Solver_called ?x0 True scipy_kwargs]\<rparr>"
  let ?run = "run_solver (solver ?x0 True scipy_kwargs) (eval_func closure step_callback) ?w0"
  from assms have m: "minimize solver closure step_callback scipy_kwargs w = ?run"
    by (simp add: minimize_callable)
  from run_solver_replay [of "solver ?x0 True scipy_kwargs" closure step_callback ?w0]
  obtain tr where "trace (snd ?run) = trace ?w0 @ tr" "solver_calls tr = []"
    by blast
  with m show ?thesis by simp
qed

text \<open>
  The one-step solver on the quadratic loss, with an option.
\<close>

theorem minimize_delegates_witness:
  "callable (PyFun quadratic) \<and> variables world0 \<noteq> [] \<and>
   minimize one_step_solver (PyFun quadratic) (PyFun logger) [(''method'', ''L-BFGS-B'')] world0 =
     (Inr [5, 6, 7],
      \<lparr>variables = [\<lparr>shape = [2], vals = [1, 2]\<rparr>, \<lparr>shape = [1], vals = [3]\<rparr>],
       user = [''loss'', ''step''],
       trace = [Solver_called [0, 0, 0] True [(''method'', ''L-BFGS-B'')],
                Eval_called [1, 2, 3],
                Closure_called [\<lparr>shape = [2], vals = [1, 2]\<rparr>, \<lparr>shape = [1], vals = [3]\<rparr>],
                Callback_called 14 [\<lparr>shape = [2], vals = [1, 2]\<rparr>, \<lparr>shape = [1], vals = [3]\<rparr>]
                  [\<lparr>shape = [2], vals = [2, 4]\<rparr>, \<lparr>shape = [1], vals = [6]\<rparr>]]\<rparr>)"
proof -
  have c: "callable (PyFun quadratic)" by simp
  have n: "variables world0 \<noteq> []" by (simp add: world0_def)
  have u: "unpack_tensors [\<lparr>shape = [2], vals = [0, 0]\<rparr>, \<lparr>shape = [1], vals = [0]\<rparr>] [1, 2, 3 :: int]
    = (None, [\<lparr>shape = [2], vals = [1, 2]\<rparr>, \<lparr>shape = [1], vals = [3]\<rparr>])"
    using unpack_world0 by (simp add: world0_def)
  from minimize_delegates
    [OF c n, of one_step_solver "PyFun logger" "[(''method'', ''L-BFGS-B'')]"]
  show ?thesis
    apply (simp add: one_step_solver_def)
    apply (simp add: world0_def eval_func_def u loss_gradients_def call_step_callback_def
        quadratic_def logger_def pack_tensors_nonempty del: One_nat_def)
    done
qed

text \<open>
  Claim C9. Whatever \<^verbatim>\<open>minimize\<close> returns, the tensors afterwards are the tensors of
  before with the vectors of the solver's evaluations unpacked into them one after the
  other, and nothing else: untouched when the solver evaluated nothing, and, for tensors
  of rank at least one, holding the vector of the last evaluation when this has the right
  length. The solver's result plays no part.
\<close>

theorem minimize_no_write_back:
  assumes "minimize solver closure step_callback scipy_kwargs w = (res, w')"
  shows "\<exists>tr. trace w' = trace w @ tr \<and>
              variables w' = unpack_all (variables w) (eval_points tr) \<and>
              (eval_points tr = [] \<longrightarrow> variables w' = variables w) \<and>
              (eval_points tr \<noteq> [] \<and> list_all ranked (variables w) \<and>
               length (last (eval_points tr)) = total_size (variables w)
                 \<longrightarrow> pack_tensors (variables w') = Inr (last (eval_points tr)))"
proof -
  have "\<exists>tr. trace w' = trace w @ tr \<and>
             variables w' = unpack_all (variables w) (eval_points tr) \<and>
             (variables w = [] \<longrightarrow> eval_points tr = [])"
  proof (cases "callable closure \<and> variables w \<noteq> []")
    case False
    have "w' = w"
    proof (cases "callable closure")
      case True
      with False have "variables w = []" by simp
      from minimize_no_parameters [OF True this, of solver step_callback scipy_kwargs] assms
      show ?thesis by simp
    next
      case False
      with assms show ?thesis by (simp add: minimize_def)
    qed
    then show ?thesis
      by (intro exI [where x = "[]"]) (simp add: unpack_all_def)
  next
    case True
    let ?x0 = "concat (map vals (variables w))"
    let ?w0 = "w\<lparr>trace := trace w @ [Solver_called ?x0 True scipy_kwargs]\<rparr>"
    let ?run = "run_solver (solver ?x0 True scipy_kwargs) (eval_func closure step_callback) ?w0"
    from True assms have m: "?run = (res, w')"
      by (simp add: minimize_callable)
    from run_solver_replay [of "solver ?x0 True scipy_kwargs" closure step_callback ?w0]
    obtain tr where "trace (snd ?run) = trace ?w0 @ tr"
      "variables (snd ?run) = unpack_all (variables ?w0) (eval_points tr)"
      by blast
    with m True have "trace w' = trace w @ Solver_called ?x0 True scipy_kwargs # tr \<and>
      variables w' = unpack_all (variables w)
        (eval_points (Solver_called ?x0 True scipy_kwargs # tr)) \<and>
      (variables w = [] \<longrightarrow> eval_points (Solver_called ?x0 True scipy_kwargs # tr) = [])"
      by simp
    then show ?thesis by blast
  qed
  then obtain tr where tr: "trace w' = trace w @ tr"
    "variables w' = unpack_all (variables w) (eval_points tr)"
    "variables w = [] \<longrightarrow> eval_points tr = []"
    by blast
  have "eval_points tr = [] \<longrightarrow> variables w' = variables w"
    using tr(2) by (simp add: unpack_all_def)
  moreover have "eval_points tr \<noteq> [] \<and> list_all ranked (variables w) \<and>
               length (last (eval_points tr)) = total_size (variables w)
                 \<longrightarrow> pack_tensors (variables w') = Inr (last (eval_points tr))"
  proof
    assume a: "eval_points tr \<noteq> [] \<and> list_all ranked (variables w) \<and>
               length (last (eval_points tr)) = total_size (variables w)"
    with tr(3) have "variables w \<noteq> []" by auto
    with unpack_all_shapes [of "variables w" "eval_points tr"] tr(2)
    have ne: "variables w' \<noteq> []" by auto
    from a tr(2) have "concat (map vals (variables w')) = last (eval_points tr)"
      by (simp add: unpack_all_last)
    with ne show "pack_tensors (variables w') = Inr (last (eval_points tr))"
      by (simp add: pack_tensors_nonempty)
  qed
  ultimately show ?thesis using tr by blast
qed

text \<open>
  The one-step solver evaluates at \<open>[1, 2, 3]\<close> and reports \<open>[5, 6, 7]\<close>: the tensors hold
  \<open>[1, 2, 3]\<close>.
\<close>

theorem minimize_no_write_back_witness:
  "minimize one_step_solver (PyFun quadratic) PyNone [] world0 =
     (Inr [5, 6, 7],
      \<lparr>variables = [\<lparr>shape = [2], vals = [1, 2]\<rparr>, \<lparr>shape = [1], vals = [3]\<rparr>],
       user = [''loss''],
       trace = [Solver_called [0, 0, 0] True [], Eval_called [1, 2, 3],
                Closure_called [\<lparr>shape = [2], vals = [1, 2]\<rparr>, \<lparr>shape = [1], vals = [3]\<rparr>]]\<rparr>) \<and>
   (\<exists>tr. tr = [Solver_called [0, 0, 0] True [], Eval_called [1, 2, 3],
                Closure_called [\<lparr>shape = [2], vals = [1, 2]\<rparr>, \<lparr>shape = [1], vals = [3]\<rparr>]] \<and>
      eval_points tr = [[1, 2, 3]] \<and>
      [\<lparr>shape = [2], vals = [1, 2]\<rparr>, \<lparr>shape = [1], vals = [3]\<rparr>]
        = unpack_all (variables world0) (eval_points tr) \<and>
      pack_tensors [\<lparr>shape = [2], vals = [1, 2]\<rparr>, \<lparr>shape = [1], vals = [3 :: int]\<rparr>]
        = Inr (last (eval_points tr))) \<and>
   pack_tensors [\<lparr>shape = [2], vals = [1, 2]\<rparr>, \<lparr>shape = [1], vals = [3 :: int]\<rparr>]
     \<noteq> Inr [5, 6, 7]"
proof -
  let ?W = "\<lparr>variables = [\<lparr>shape = [2], vals = [1, 2 :: int]\<rparr>, \<lparr>shape = [1], vals = [3]\<rparr>],
       user = [''loss''],
       trace = [Solver_called [0, 0, 0] True [], Eval_called [1, 2, 3],
                Closure_called [\<lparr>shape = [2], vals = [1, 2]\<rparr>, \<lparr>shape = [1], vals = [3]\<rparr>]]\<rparr>"
  have u: "unpack_tensors [\<lparr>shape = [2], vals = [0, 0]\<rparr>, \<lparr>shape = [1], vals = [0]\<rparr>] [1, 2, 3 :: int]
    = (None, [\<lparr>shape = [2], vals = [1, 2]\<rparr>, \<lparr>shape = [1], vals = [3]\<rparr>])"
    using unpack_world0 by (simp add: world0_def)
  have m: "minimize one_step_solver (PyFun quadratic) PyNone [] world0 = (Inr [5, 6, 7], ?W)"
    by (simp add: minimize_def scipy_optimize_minimize_def initial_parameters_def Let_def
        one_step_solver_def world0_def eval_func_def u loss_gradients_def quadratic_def
        pack_tensors_nonempty del: One_nat_def)
  from minimize_no_write_back [OF m] obtain tr where
    t: "trace ?W = trace world0 @ tr"
    and v: "variables ?W = unpack_all (variables world0) (eval_points tr)"
    and l: "eval_points tr \<noteq> [] \<and> list_all ranked (variables world0) \<and>
            length (last (eval_points tr)) = total_size (variables world0)
              \<longrightarrow> pack_tensors (variables ?W) = Inr (last (eval_points tr))"
    by blast
  from t have tr: "tr = [Solver_called [0, 0, 0] True [], Eval_called [1, 2, 3],
                Closure_called [\<lparr>shape = [2], vals = [1, 2]\<rparr>, \<lparr>shape = [1], vals = [3]\<rparr>]]"
    by (simp add: world0_def)
  then have ep: "eval_points tr = [[1, 2, 3]]"
    by simp
  from v have v': "[\<lparr>shape = [2], vals = [1, 2]\<rparr>, \<lparr>shape = [1], vals = [3]\<rparr>]
        = unpack_all (variables world0) (eval_points tr)"
    by simp
  from l ep have l': "pack_tensors [\<lparr>shape = [2], vals = [1, 2]\<rparr>, \<lparr>shape = [1], vals = [3 :: int]\<rparr>]
        = Inr (last (eval_points tr))"
    by (simp add: world0_def total_size_def num_elements_def ranked_def)
  have "pack_tensors [\<lparr>shape = [2], vals = [1, 2]\<rparr>, \<lparr>shape = [1], vals = [3 :: int]\<rparr>]
          \<noteq> Inr [5, 6, 7]"
    by (simp add: pack_tensors_nonempty)
  with m tr ep v' l' show ?thesis
    by blast
qed

end
